theory Spec2Isabelle
  imports Complex_Main
begin

section \<open>Data model of the canvas application\<close>

text \<open>
  The two App variants (the zoomable canvas and the basic one) declare the same
  interfaces \<^verbatim>\<open>Position\<close> and \<^verbatim>\<open>Card\<close>. A finite JavaScript number is the real
  number it denotes. The handlers are given twice: with exact arithmetic, for the
  statements on which rounding has no bearing, and with the arithmetic of IEEE doubles
  (section "Double precision arithmetic"), for the statements where it has. A division
  by zero (which HOL evaluates to 0, JavaScript to an infinity or NaN) is excluded by
  hypothesis wherever a statement depends on it.
\<close>

record position =
  x :: real
  y :: real

text \<open>The field \<^verbatim>\<open>id\<close> is \<open>id_card\<close> and \<^verbatim>\<open>text\<close> is \<open>text_card\<close> here.\<close>

record card =
  id_card :: string
  position :: position
  text_card :: string

text \<open>
  \<^verbatim>\<open>Partial<Omit<Card, "id">>\<close>: each of the two remaining fields is present or
  not; the type leaves no room for an \<^verbatim>\<open>id\<close>.
\<close>

record card_patch =
  position_patch :: "position option"
  text_patch :: "string option"

text \<open>The canvas transform \<^verbatim>\<open>{ x, y, scale }\<close> of the zoomable variant.\<close>

record canvas_position = position +
  scale :: real

record mouse_event =
  clientX :: real
  clientY :: real

record wheel_event = mouse_event +
  deltaY :: real

definition MAX_SCALE :: real where
  "MAX_SCALE = 5"

definition MIN_SCALE :: real where
  "MIN_SCALE = 0.25"

definition SCALING_FACTOR :: real where
  "SCALING_FACTOR = 0.01"

section \<open>Card list operations\<close>

text \<open>
  \<^verbatim>\<open>Object.assign(currentCard, card)\<close> inside \<^verbatim>\<open>produce\<close>: every property the
  patch has is written to the card, the others stay.
\<close>

definition assign_patch :: "card \<Rightarrow> card_patch \<Rightarrow> card" where
  "assign_patch currentCard p =
     (let c1 = (case position_patch p of
                  None \<Rightarrow> currentCard
                | Some pos \<Rightarrow> currentCard\<lparr>position := pos\<rparr>)
      in (case text_patch p of
            None \<Rightarrow> c1
          | Some t \<Rightarrow> c1\<lparr>text_card := t\<rparr>))"

text \<open>
  The store setter called with a filter function and an updater,
  \<^verbatim>\<open>setCards(pred, produce(f))\<close>: the updater runs on every element of the array
  that satisfies the filter, in place.
\<close>

definition setCards_where :: "(card \<Rightarrow> bool) \<Rightarrow> (card \<Rightarrow> card) \<Rightarrow> card list \<Rightarrow> card list" where
  "setCards_where pred f cards = map (\<lambda>c. if pred c then f c else c) cards"

text \<open>
  The store setter called with an index and a value, \<^verbatim>\<open>setCards(cards.length, c)\<close>:
  the index is the length of the array, one past its last element, so the write
  extends the array by the new card.
\<close>

definition setCards_at_length :: "card \<Rightarrow> card list \<Rightarrow> card list" where
  "setCards_at_length c cards = cards @ [c]"

subsection \<open>The zoomable variant\<close>

text \<open>
  \<^verbatim>\<open>generateId\<close> lives in a utility module that is not among the sources; the id it
  returns is a parameter of \<open>addCard\<close>.
\<close>

definition addCard_zoom :: "string \<Rightarrow> card list \<Rightarrow> card list" where
  "addCard_zoom generatedId cards =
     setCards_at_length
       \<lparr>id_card = generatedId, position = \<lparr>x = 100, y = 100\<rparr>, text_card = ''New Card''\<rparr>
       cards"

definition updateCard_zoom :: "string \<Rightarrow> card_patch \<Rightarrow> card list \<Rightarrow> card list" where
  "updateCard_zoom i p cards =
     setCards_where (\<lambda>c. id_card c = i) (\<lambda>currentCard. assign_patch currentCard p) cards"

subsection \<open>The basic variant\<close>

definition addCard_basic :: "string \<Rightarrow> card list \<Rightarrow> card list" where
  "addCard_basic generatedId cards =
     setCards_at_length
       \<lparr>id_card = generatedId, position = \<lparr>x = 100, y = 100\<rparr>, text_card = ''New Card''\<rparr>
       cards"

definition updateCard_basic :: "string \<Rightarrow> card_patch \<Rightarrow> card list \<Rightarrow> card list" where
  "updateCard_basic i p cards =
     setCards_where (\<lambda>c. id_card c = i) (\<lambda>currentCard. assign_patch currentCard p) cards"

section \<open>Zooming and panning the canvas\<close>

text \<open>
  Modelled from the spec: \<^verbatim>\<open>clamp\<close> is imported from the utility module, which is
  not among the sources; the spec lists it as "numeric clamping". It is called as
  \<^verbatim>\<open>clamp(value, min, max)\<close> and modelled as the value limited to the interval from
  \<open>lo\<close> to \<open>hi\<close>.
\<close>

definition clamp :: "real \<Rightarrow> real \<Rightarrow> real \<Rightarrow> real" where
  "clamp v lo hi = min (max v lo) hi"

datatype direction = Up | Down

definition handleWheel :: "wheel_event \<Rightarrow> canvas_position \<Rightarrow> canvas_position" where
  "handleWheel e canvasPosition =
     (let currentScale = scale canvasPosition;
          direction = (if deltaY e < 0 then Up else Down);
          absoluteDiff = \<bar>deltaY e\<bar> * SCALING_FACTOR;
          unclampedNewScale =
            (if direction = Up then currentScale + absoluteDiff
             else currentScale - absoluteDiff);
          newScale = clamp unclampedNewScale MIN_SCALE MAX_SCALE;
          distanceX = clientX e - x canvasPosition;
          distanceY = clientY e - y canvasPosition;
          scaledDistanceX = (distanceX / currentScale) * newScale;
          scaledDistanceY = (distanceY / currentScale) * newScale;
          newX = clientX e - scaledDistanceX;
          newY = clientY e - scaledDistanceY
      in canvasPosition\<lparr>scale := newScale, x := newX, y := newY\<rparr>)"

text \<open>
  The background drag keeps the cursor position of the previous event in the variable
  \<^verbatim>\<open>mouseDownPosition\<close>, \<^verbatim>\<open>null\<close> outside a drag. The handlers act on that
  variable and on the canvas transform, here a pair.
\<close>

fun handleBackgroundMouseDown ::
  "mouse_event \<Rightarrow> position option \<times> canvas_position \<Rightarrow> position option \<times> canvas_position" where
  "handleBackgroundMouseDown e (mouseDownPosition, canvasPosition) =
     (Some \<lparr>x = clientX e, y = clientY e\<rparr>, canvasPosition)"


fun handleBackgroundMouseUp ::
  "position option \<times> canvas_position \<Rightarrow> position option \<times> canvas_position" where
  "handleBackgroundMouseUp (mouseDownPosition, canvasPosition) = (None, canvasPosition)"

section \<open>Dragging a card\<close>

text \<open>
  A Card component is rendered for one element of the card list (\<^verbatim>\<open>props.card\<close> is
  that element of the store, here its index \<open>card_index\<close>) and keeps the cursor
  position of the previous event in \<^verbatim>\<open>prevMousePosition\<close>. The handlers act on that
  variable and, through \<^verbatim>\<open>props.updateCard\<close>, on the card list of the App.
\<close>

fun handleMouseDown ::
  "mouse_event \<Rightarrow> position option \<times> card list \<Rightarrow> position option \<times> card list" where
  "handleMouseDown e (prevMousePosition, cards) =
     (Some \<lparr>x = clientX e, y = clientY e\<rparr>, cards)"

text \<open>The zoomable variant divides the cursor movement by \<^verbatim>\<open>props.scale\<close>.\<close>

fun handleMouseMove_zoom ::
  "nat \<Rightarrow> real \<Rightarrow> mouse_event \<Rightarrow> position option \<times> card list \<Rightarrow> position option \<times> card list" where
  "handleMouseMove_zoom card_index props_scale e (None, cards) = (None, cards)"
| "handleMouseMove_zoom card_index props_scale e (Some prevMousePosition, cards) =
     (let deltaX = clientX e - x prevMousePosition;
          deltaY = clientY e - y prevMousePosition;
          props_card = cards ! card_index
      in (Some \<lparr>x = clientX e, y = clientY e\<rparr>,
          updateCard_zoom (id_card props_card)
            \<lparr>position_patch = Some
               \<lparr>x = x (position props_card) + deltaX / props_scale,
                y = y (position props_card) + deltaY / props_scale\<rparr>,
             text_patch = None\<rparr>
            cards))"

fun handleMouseUp :: "position option \<times> card list \<Rightarrow> position option \<times> card list" where
  "handleMouseUp (prevMousePosition, cards) = (None, cards)"

section \<open>Double precision arithmetic\<close>

text \<open>
  A JavaScript number is an IEEE 754 double, and each arithmetic operation returns the
  double nearest to the exact result, a tie going to the even significand. A finite
  double is represented by its real value. \<open>fl r\<close> is the double nearest to \<open>r\<close>: the
  significand has 53 bits, \<open>binade r\<close> is the exponent of the power of two at or below
  the magnitude of \<open>r\<close> (found by halving or doubling), and the unit in the last place
  of \<open>r\<close> is 2 to the power \<open>ulp_exponent r\<close>, which does not go below -1074 (the
  subnormal range). Overflow to an infinity, NaN and the sign of zero are not
  represented: a statement about doubles has the hypothesis that the exact results it
  rounds are \<open>normal\<close>, that is, zero or between the smallest normal double and the
  largest double in magnitude.
\<close>

definition round_nearest_even :: "real \<Rightarrow> int" where
  "round_nearest_even z =
     (let f = \<lfloor>z\<rfloor>; d = z - of_int f
      in if d < 1/2 then f else if 1/2 < d then f + 1 else if even f then f else f + 1)"

function halvings :: "real \<Rightarrow> nat" where
  "halvings r = (if r < 2 then 0 else Suc (halvings (r / 2)))"
  by pat_completeness auto
termination
proof (relation "measure (\<lambda>r. nat \<lfloor>r\<rfloor>)")
  show "wf (measure (\<lambda>r::real. nat \<lfloor>r\<rfloor>))" by simp
next
  fix r :: real
  assume "\<not> r < 2"
  then have "r / 2 \<le> r - 1" by simp
  then have "\<lfloor>r / 2\<rfloor> \<le> \<lfloor>r - 1\<rfloor>" by (rule floor_mono)
  moreover have "2 \<le> \<lfloor>r\<rfloor>" using \<open>\<not> r < 2\<close> by (simp add: le_floor_iff)
  ultimately show "(r / 2, r) \<in> measure (\<lambda>r. nat \<lfloor>r\<rfloor>)" by simp
qed

function doublings :: "real \<Rightarrow> nat" where
  "doublings r = (if r \<le> 0 \<or> 1 \<le> r then 0 else Suc (doublings (2 * r)))"
  by pat_completeness auto
termination
proof (relation "measure (\<lambda>r. nat \<lceil>1 / r\<rceil>)")
  show "wf (measure (\<lambda>r::real. nat \<lceil>1 / r\<rceil>))" by simp
next
  fix r :: real
  assume "\<not> (r \<le> 0 \<or> 1 \<le> r)"
  then have r: "0 < r" "r < 1" by simp_all
  define z where "z = 1 / r"
  have z: "1 < z" using r by (simp add: z_def)
  have "\<lceil>z / 2\<rceil> < \<lceil>z\<rceil>"
  proof (cases "z \<le> 2")
    case True
    then have "\<lceil>z / 2\<rceil> \<le> 1" by (simp add: ceiling_le_iff)
    moreover have "1 < \<lceil>z\<rceil>" using z by (simp add: less_ceiling_iff)
    ultimately show ?thesis by linarith
  next
    case False
    then have "z / 2 \<le> z - 1" by simp
    then have "\<lceil>z / 2\<rceil> \<le> \<lceil>z - 1\<rceil>" by (rule ceiling_mono)
    then show ?thesis by simp
  qed
  moreover have "0 < \<lceil>z\<rceil>" using z by (simp add: less_ceiling_iff)
  moreover have "1 / (2 * r) = z / 2" by (simp add: z_def)
  ultimately show "(2 * r, r) \<in> measure (\<lambda>r. nat \<lceil>1 / r\<rceil>)"
    by (simp add: z_def mult.commute)
qed

declare halvings.simps [simp del] doublings.simps [simp del]

definition binade :: "real \<Rightarrow> int" where
  "binade r = (if 1 \<le> \<bar>r\<bar> then int (halvings \<bar>r\<bar>) else - int (doublings \<bar>r\<bar>))"

definition ulp_exponent :: "real \<Rightarrow> int" where
  "ulp_exponent r = max (binade r) (- 1022) - 52"

definition fl :: "real \<Rightarrow> real" where
  "fl r = (if r = 0 then 0
           else of_int (round_nearest_even (r / 2 powi ulp_exponent r)) * 2 powi ulp_exponent r)"

definition fadd :: "real \<Rightarrow> real \<Rightarrow> real" where
  "fadd a b = fl (a + b)"

definition fsub :: "real \<Rightarrow> real \<Rightarrow> real" where
  "fsub a b = fl (a - b)"

definition fmul :: "real \<Rightarrow> real \<Rightarrow> real" where
  "fmul a b = fl (a * b)"

definition fdiv :: "real \<Rightarrow> real \<Rightarrow> real" where
  "fdiv a b = fl (a / b)"

definition max_double :: real where
  "max_double = 2 ^ 1024 - 2 ^ 971"

definition normal :: "real \<Rightarrow> bool" where
  "normal r = (r = 0 \<or> (1 / 2 ^ 1022 \<le> \<bar>r\<bar> \<and> \<bar>r\<bar> \<le> max_double))"

subsection \<open>The wheel handler in doubles\<close>

text \<open>
  The literal \<^verbatim>\<open>0.01\<close> denotes the double nearest to one hundredth; 0.25 and 5 are
  doubles. \<^verbatim>\<open>Math.abs\<close> and the comparisons of \<^verbatim>\<open>clamp\<close> do not round.
\<close>

definition SCALING_FACTOR_double :: real where
  "SCALING_FACTOR_double = fl SCALING_FACTOR"

definition handleWheel_double :: "wheel_event \<Rightarrow> canvas_position \<Rightarrow> canvas_position" where
  "handleWheel_double e canvasPosition =
     (let currentScale = scale canvasPosition;
          direction = (if deltaY e < 0 then Up else Down);
          absoluteDiff = fmul \<bar>deltaY e\<bar> SCALING_FACTOR_double;
          unclampedNewScale =
            (if direction = Up then fadd currentScale absoluteDiff
             else fsub currentScale absoluteDiff);
          newScale = clamp unclampedNewScale MIN_SCALE MAX_SCALE;
          distanceX = fsub (clientX e) (x canvasPosition);
          distanceY = fsub (clientY e) (y canvasPosition);
          scaledDistanceX = fmul (fdiv distanceX currentScale) newScale;
          scaledDistanceY = fmul (fdiv distanceY currentScale) newScale;
          newX = fsub (clientX e) scaledDistanceX;
          newY = fsub (clientY e) scaledDistanceY
      in canvasPosition\<lparr>scale := newScale, x := newX, y := newY\<rparr>)"

text \<open>
  The world coordinate of the cursor along one axis,
  \<^verbatim>\<open>(e.clientX - position.x) / position.scale\<close>, as doubles compute it.
\<close>

definition world_double :: "real \<Rightarrow> real \<Rightarrow> real \<Rightarrow> real" where
  "world_double client offset s = fdiv (fsub client offset) s"

text \<open>
  Along one axis, the exact results that the update of the offset and the world
  coordinate after it round are normal.
\<close>

definition wheel_axis_normal :: "real \<Rightarrow> real \<Rightarrow> real \<Rightarrow> real \<Rightarrow> bool" where
  "wheel_axis_normal client offset currentScale newScale =
     (let distance = fsub client offset;
          scaledDistance = fmul (fdiv distance currentScale) newScale;
          newOffset = fsub client scaledDistance
      in normal (client - offset) \<and> normal (distance / currentScale)
         \<and> normal (fdiv distance currentScale * newScale)
         \<and> normal (client - scaledDistance)
         \<and> normal (client - newOffset)
         \<and> normal (fsub client newOffset / newScale))"

subsection \<open>The card drag handler in doubles\<close>

fun handleMouseMove_zoom_double ::
  "nat \<Rightarrow> real \<Rightarrow> mouse_event \<Rightarrow> position option \<times> card list \<Rightarrow> position option \<times> card list" where
  "handleMouseMove_zoom_double card_index props_scale e (None, cards) = (None, cards)"
| "handleMouseMove_zoom_double card_index props_scale e (Some prevMousePosition, cards) =
     (let deltaX = fsub (clientX e) (x prevMousePosition);
          deltaY = fsub (clientY e) (y prevMousePosition);
          props_card = cards ! card_index
      in (Some \<lparr>x = clientX e, y = clientY e\<rparr>,
          updateCard_zoom (id_card props_card)
            \<lparr>position_patch = Some
               \<lparr>x = fadd (x (position props_card)) (fdiv deltaX props_scale),
                y = fadd (y (position props_card)) (fdiv deltaY props_scale)\<rparr>,
             text_patch = None\<rparr>
            cards))"

text \<open>Along one axis, the exact results that the drag rounds are normal.\<close>

definition drag_axis_normal :: "real \<Rightarrow> real \<Rightarrow> real \<Rightarrow> real \<Rightarrow> bool" where
  "drag_axis_normal client prev coordinate props_scale =
     (let delta = fsub client prev
      in normal (client - prev) \<and> normal (delta / props_scale)
         \<and> normal (coordinate + fdiv delta props_scale))"

section \<open>Persistence in browser storage\<close>

text \<open>
  What a store holds and what \<^verbatim>\<open>JSON.parse\<close> returns is an untyped JavaScript
  value. An object is the list of its properties in insertion order. A finite number
  is \<open>JNum\<close> of its real value; NaN and the two infinities are values of their own.
\<close>

datatype jsvalue =
    JUndefined
  | JNull
  | JBool bool
  | JNum real
  | JNaN
  | JPosInfinity
  | JNegInfinity
  | JStr string
  | JArr "jsvalue list"
  | JObj "(string \<times> jsvalue) list"

text \<open>Truthiness, as \<^verbatim>\<open>||\<close> and \<^verbatim>\<open>? :\<close> test it.\<close>

fun truthy :: "jsvalue \<Rightarrow> bool" where
  "truthy JUndefined = False"
| "truthy JNull = False"
| "truthy (JBool b) = b"
| "truthy (JNum n) = (n \<noteq> 0)"
| "truthy JNaN = False"
| "truthy JPosInfinity = True"
| "truthy JNegInfinity = True"
| "truthy (JStr s) = (s \<noteq> [])"
| "truthy (JArr vs) = True"
| "truthy (JObj ps) = True"

text \<open>
  The JavaScript value of a card list: a card made by \<^verbatim>\<open>addCard\<close> has its
  properties in the order \<^verbatim>\<open>id\<close>, \<^verbatim>\<open>text\<close>, \<^verbatim>\<open>position\<close>.
\<close>

definition position_js :: "position \<Rightarrow> jsvalue" where
  "position_js p = JObj [(''x'', JNum (x p)), (''y'', JNum (y p))]"

definition card_js :: "card \<Rightarrow> jsvalue" where
  "card_js c =
     JObj [(''id'', JStr (id_card c)),
           (''text'', JStr (text_card c)),
           (''position'', position_js (position c))]"

definition cards_js :: "card list \<Rightarrow> jsvalue" where
  "cards_js cs = JArr (map card_js cs)"

text \<open>
  The interfaces \<^verbatim>\<open>Position\<close> and \<^verbatim>\<open>Card\<close> as types of JavaScript values: the
  value has the properties the interface names, each of the type it gives. The type
  \<^verbatim>\<open>number\<close> has NaN and the infinities among its values.
\<close>

fun is_number :: "jsvalue \<Rightarrow> bool" where
  "is_number (JNum n) = True"
| "is_number JNaN = True"
| "is_number JPosInfinity = True"
| "is_number JNegInfinity = True"
| "is_number v = False"

fun is_string :: "jsvalue \<Rightarrow> bool" where
  "is_string (JStr s) = True"
| "is_string v = False"

fun has_property :: "(jsvalue \<Rightarrow> bool) \<Rightarrow> string \<Rightarrow> jsvalue \<Rightarrow> bool" where
  "has_property is_type k (JObj ps) =
     (case map_of ps k of None \<Rightarrow> False | Some v \<Rightarrow> is_type v)"
| "has_property is_type k v = False"

definition is_Position :: "jsvalue \<Rightarrow> bool" where
  "is_Position v = (has_property is_number ''x'' v \<and> has_property is_number ''y'' v)"

definition is_Card :: "jsvalue \<Rightarrow> bool" where
  "is_Card v =
     (has_property is_string ''id'' v \<and> has_property is_Position ''position'' v
      \<and> has_property is_string ''text'' v)"

fun is_Card_list :: "jsvalue \<Rightarrow> bool" where
  "is_Card_list (JArr vs) = list_all is_Card vs"
| "is_Card_list v = False"

text \<open>
  Exceptions are values: a function that can throw returns \<open>Inl\<close> of the exception.
  \<^verbatim>\<open>JSON.parse\<close> and \<^verbatim>\<open>JSON.stringify\<close> belong to the platform, not to the
  repository, and are parameters of everything that calls them; \<^verbatim>\<open>JSON.parse\<close>
  throws a SyntaxError on a string that is not valid JSON.
\<close>

datatype exn = SyntaxError | TypeError

record JSON =
  parse :: "string \<Rightarrow> exn + jsvalue"
  stringify :: "jsvalue \<Rightarrow> exn + string"

text \<open>
  A \<^verbatim>\<open>Storage\<close> object maps keys to strings; \<^verbatim>\<open>getItem\<close> returns \<^verbatim>\<open>null\<close>
  (here \<open>None\<close>) for an absent key. The browser has the two storages, and, to make
  the effects of the code observable, the sequence of \<^verbatim>\<open>setItem\<close> calls made so far
  and the messages given to \<^verbatim>\<open>console.error\<close>. Storage has no quota here:
  \<^verbatim>\<open>setItem\<close> always succeeds.
\<close>

type_synonym storage = "string \<rightharpoonup> string"

datatype storage_type = Session | Local

record browser =
  sessionStorage :: storage
  localStorage :: storage
  setItem_calls :: "(storage_type \<times> string \<times> string) list"
  console_error :: "string list"

definition getItem :: "storage \<Rightarrow> string \<Rightarrow> string option" where
  "getItem storage k = storage k"

definition sessionStorage_setItem :: "string \<Rightarrow> string \<Rightarrow> browser \<Rightarrow> browser" where
  "sessionStorage_setItem k v b =
     b\<lparr>sessionStorage := (sessionStorage b)(k \<mapsto> v),
       setItem_calls := setItem_calls b @ [(Session, k, v)]\<rparr>"

subsection \<open>The persistent store of the zoomable variant\<close>

definition getPersistedValue :: "JSON \<Rightarrow> storage \<Rightarrow> string \<Rightarrow> exn + jsvalue" where
  "getPersistedValue JSON storage k =
     (let persistedValue = getItem storage k
      in case (case persistedValue of
                 None \<Rightarrow> Inr JUndefined
               | Some s \<Rightarrow> if s \<noteq> [] then parse JSON s else Inr JUndefined) of
           Inr v \<Rightarrow> Inr v
         | Inl caught \<Rightarrow> Inr JUndefined)"

record options =
  key :: string
  type :: storage_type
  name :: "string option"

text \<open>
  The body of the effect that \<^verbatim>\<open>createPersistentStore\<close> registers, run on the
  current value of the store.
\<close>

definition persist_effect :: "JSON \<Rightarrow> options \<Rightarrow> jsvalue \<Rightarrow> browser \<Rightarrow> browser" where
  "persist_effect JSON opts store b =
     (case stringify JSON store of
        Inr stringifiedValue \<Rightarrow> sessionStorage_setItem (key opts) stringifiedValue b
      | Inl caught \<Rightarrow>
          b\<lparr>console_error := console_error b @ [''error while trying to persist value'']\<rparr>)"

text \<open>
  \<^verbatim>\<open>createPersistentStore\<close> returns the store, here its initial value, and leaves
  the browser as it is after the first run of the effect, which the framework makes
  when the effect is created. \<^verbatim>\<open>createStore\<close> keeps the value it is given.
\<close>

definition createPersistentStore ::
  "JSON \<Rightarrow> jsvalue \<Rightarrow> options \<Rightarrow> browser \<Rightarrow> exn + (jsvalue \<times> browser)" where
  "createPersistentStore JSON object opts b =
     (let storage = (if type opts = Session then sessionStorage b else localStorage b)
      in case getPersistedValue JSON storage (key opts) of
           Inl err \<Rightarrow> Inl err
         | Inr persisted \<Rightarrow>
             (let initialValue = (if truthy persisted then persisted else object)
              in Inr (initialValue, persist_effect JSON opts initialValue b)))"

text \<open>
  The framework runs an effect again after every update of the store it has read.
  The effect reads the whole store (\<^verbatim>\<open>JSON.stringify\<close> visits every property), so
  each call of the store's setter that changes the store is followed by one run of
  the effect on the new value. \<open>persistent_store_updates\<close> takes the values the
  store has after each of a sequence of such updates.
\<close>

fun persistent_store_updates :: "JSON \<Rightarrow> options \<Rightarrow> jsvalue list \<Rightarrow> browser \<Rightarrow> browser" where
  "persistent_store_updates JSON opts [] b = b"
| "persistent_store_updates JSON opts (store # later) b =
     persistent_store_updates JSON opts later (persist_effect JSON opts store b)"

subsection \<open>The card store of the basic variant\<close>

definition getInitialCards :: "JSON \<Rightarrow> storage \<Rightarrow> exn + jsvalue" where
  "getInitialCards JSON storage =
     (let storageCards = getItem storage ''cards''
      in case (case storageCards of
                 None \<Rightarrow> Inr (JArr [])
               | Some s \<Rightarrow> if s \<noteq> [] then parse JSON s else Inr (JArr [])) of
           Inr initialCards \<Rightarrow> Inr initialCards
         | Inl caught \<Rightarrow> Inr (JArr []))"

text \<open>The effect of the basic App has no \<^verbatim>\<open>try\<close>: an exception leaves it.\<close>

definition App_effect_basic :: "JSON \<Rightarrow> jsvalue \<Rightarrow> browser \<Rightarrow> exn + browser" where
  "App_effect_basic JSON cards b =
     (case stringify JSON cards of
        Inl err \<Rightarrow> Inl err
      | Inr cardsString \<Rightarrow> Inr (sessionStorage_setItem ''cards'' cardsString b))"

text \<open>
  The basic App creates its store from \<^verbatim>\<open>getInitialCards(sessionStorage)\<close> and
  registers the effect, which runs once at once.
\<close>

definition App_basic :: "JSON \<Rightarrow> browser \<Rightarrow> exn + (jsvalue \<times> browser)" where
  "App_basic JSON b =
     (case getInitialCards JSON (sessionStorage b) of
        Inl err \<Rightarrow> Inl err
      | Inr cards \<Rightarrow>
          (case App_effect_basic JSON cards b of
             Inl err \<Rightarrow> Inl err
           | Inr b' \<Rightarrow> Inr (cards, b')))"

fun App_basic_updates :: "JSON \<Rightarrow> jsvalue list \<Rightarrow> browser \<Rightarrow> exn + browser" where
  "App_basic_updates JSON [] b = Inr b"
| "App_basic_updates JSON (cards # later) b =
     (case App_effect_basic JSON cards b of
        Inl err \<Rightarrow> Inl err
      | Inr b' \<Rightarrow> App_basic_updates JSON later b')"

subsection \<open>A JSON codec for the examples\<close>

text \<open>
  The examples below need a concrete codec. \<open>example_JSON\<close> agrees with the
  platform's \<^verbatim>\<open>JSON\<close> object on the card lists and the strings listed here, and
  stands in for it on those only. \<^verbatim>\<open>JSON.stringify\<close> writes a number that is not
  finite as \<^verbatim>\<open>null\<close>.
\<close>

definition card_a :: card where
  "card_a = \<lparr>id_card = ''a'', position = \<lparr>x = 100, y = 100\<rparr>, text_card = ''New Card''\<rparr>"

definition card_a_moved :: card where
  "card_a_moved = \<lparr>id_card = ''a'', position = \<lparr>x = 103, y = 94\<rparr>, text_card = ''New Card''\<rparr>"

definition string_a :: string where
  \<open>string_a = ''[{"id":"a","text":"New Card","position":{"x":100,"y":100}}]''\<close>

definition string_a_moved :: string where
  \<open>string_a_moved = ''[{"id":"a","text":"New Card","position":{"x":103,"y":94}}]''\<close>

text \<open>A card whose \<^verbatim>\<open>position.x\<close> is \<^verbatim>\<open>Infinity\<close>, and the same card with \<^verbatim>\<open>null\<close> there.\<close>

definition cards_infinite :: jsvalue where
  "cards_infinite =
     JArr [JObj [(''id'', JStr ''a''), (''text'', JStr ''New Card''),
                 (''position'', JObj [(''x'', JPosInfinity), (''y'', JNum 100)])]]"

definition cards_null :: jsvalue where
  "cards_null =
     JArr [JObj [(''id'', JStr ''a''), (''text'', JStr ''New Card''),
                 (''position'', JObj [(''x'', JNull), (''y'', JNum 100)])]]"

definition string_null :: string where
  \<open>string_null = ''[{"id":"a","text":"New Card","position":{"x":null,"y":100}}]''\<close>

definition example_parse :: "string \<Rightarrow> exn + jsvalue" where
  "example_parse s =
     (if s = ''[]'' then Inr (JArr [])
      else if s = string_a then Inr (cards_js [card_a])
      else if s = string_a_moved then Inr (cards_js [card_a_moved])
      else if s = string_null then Inr cards_null
      else Inl SyntaxError)"

definition example_stringify :: "jsvalue \<Rightarrow> exn + string" where
  "example_stringify v =
     (if v = JArr [] then Inr ''[]''
      else if v = cards_js [card_a] then Inr string_a
      else if v = cards_js [card_a_moved] then Inr string_a_moved
      else if v = cards_infinite then Inr string_null
      else if v = cards_null then Inr string_null
      else Inl TypeError)"

definition example_JSON :: JSON where
  "example_JSON = \<lparr>parse = example_parse, stringify = example_stringify\<rparr>"

definition empty_browser :: browser where
  "empty_browser =
     \<lparr>sessionStorage = Map.empty, localStorage = Map.empty, setItem_calls = [], console_error = []\<rparr>"

subsection \<open>Absent and invalid stored values\<close>

text \<open>
  The key is absent from the storage, or the string stored under it is one on which
  \<^verbatim>\<open>JSON.parse\<close> throws.
\<close>

definition absent_or_invalid :: "JSON \<Rightarrow> storage \<Rightarrow> string \<Rightarrow> bool" where
  "absent_or_invalid JSON storage k =
     (case getItem storage k of None \<Rightarrow> True | Some s \<Rightarrow> isl (parse JSON s))"

section \<open>Properties of the card list operations\<close>

lemma setCards_where_length: "length (setCards_where pred f cs) = length cs"
  by (simp add: setCards_where_def)

lemma setCards_where_nth:
  "k < length cs \<Longrightarrow>
   setCards_where pred f cs ! k = (if pred (cs ! k) then f (cs ! k) else cs ! k)"
  by (simp add: setCards_where_def)

lemma assign_patch_id: "id_card (assign_patch c p) = id_card c"
  by (simp add: assign_patch_def Let_def split: option.splits)

lemma assign_patch_fields:
  "assign_patch c p =
     c\<lparr>position := (case position_patch p of None \<Rightarrow> position c | Some q \<Rightarrow> q),
       text_card := (case text_patch p of None \<Rightarrow> text_card c | Some t \<Rightarrow> t)\<rparr>"
  by (simp add: assign_patch_def Let_def split: option.splits)

text \<open>
  Claim C8. The card list operations of the two App variants are equivalent: from the
  same card list, with the same generated id and the same arguments, \<^verbatim>\<open>addCard\<close>
  gives equal card lists in both variants, and so does \<^verbatim>\<open>updateCard(id, patch)\<close>.
\<close>

theorem variants_card_operations_equal:
  "addCard_zoom generatedId cs = addCard_basic generatedId cs \<and>
   updateCard_zoom i p cs = updateCard_basic i p cs"
  by (simp add: addCard_zoom_def addCard_basic_def updateCard_zoom_def updateCard_basic_def)

theorem variants_card_operations_equal_witness:
  "addCard_zoom ''b'' [card_a] = addCard_basic ''b'' [card_a] \<and>
   addCard_basic ''b'' [card_a]
     = [card_a, \<lparr>id_card = ''b'', position = \<lparr>x = 100, y = 100\<rparr>, text_card = ''New Card''\<rparr>] \<and>
   updateCard_zoom ''a'' \<lparr>position_patch = Some \<lparr>x = 103, y = 94\<rparr>, text_patch = None\<rparr> [card_a]
     = updateCard_basic ''a'' \<lparr>position_patch = Some \<lparr>x = 103, y = 94\<rparr>, text_patch = None\<rparr> [card_a] \<and>
   updateCard_basic ''a'' \<lparr>position_patch = Some \<lparr>x = 103, y = 94\<rparr>, text_patch = None\<rparr> [card_a]
     = [card_a_moved]"
  using variants_card_operations_equal [of "''b''" "[card_a]" "''a''"
      "\<lparr>position_patch = Some \<lparr>x = 103, y = 94\<rparr>, text_patch = None\<rparr>"]
  by (simp add: addCard_basic_def setCards_at_length_def updateCard_basic_def setCards_where_def
      assign_patch_def card_a_def card_a_moved_def)

text \<open>
  Claim C10. For every card list and every call \<^verbatim>\<open>updateCard(id, patch)\<close>, in both
  variants: the list keeps its length, every card whose id differs from the given id is
  unchanged, and a card keeps its id; only its position and text fields can change.
\<close>

theorem updateCard_frame:
  "length (updateCard_zoom i p cs) = length cs \<and>
   length (updateCard_basic i p cs) = length cs \<and>
   (\<forall>k < length cs.
      (id_card (cs ! k) \<noteq> i \<longrightarrow>
         updateCard_zoom i p cs ! k = cs ! k \<and> updateCard_basic i p cs ! k = cs ! k) \<and>
      id_card (updateCard_zoom i p cs ! k) = id_card (cs ! k) \<and>
      id_card (updateCard_basic i p cs ! k) = id_card (cs ! k) \<and>
      (\<exists>q t. updateCard_zoom i p cs ! k = (cs ! k)\<lparr>position := q, text_card := t\<rparr>) \<and>
      (\<exists>q t. updateCard_basic i p cs ! k = (cs ! k)\<lparr>position := q, text_card := t\<rparr>))"
proof -
  have frame:
    "\<exists>q t. (if id_card c = i then assign_patch c p else c) = c\<lparr>position := q, text_card := t\<rparr>"
    for c
  proof (cases "id_card c = i")
    case True
    then show ?thesis using assign_patch_fields [of c p] by auto
  next
    case False
    have "c = c\<lparr>position := position c, text_card := text_card c\<rparr>" by simp
    with False show ?thesis by metis
  qed
  show ?thesis
    using frame
    by (simp add: updateCard_zoom_def updateCard_basic_def setCards_where_length
        setCards_where_nth assign_patch_id)
qed

theorem updateCard_frame_witness:
  "(0::nat) < length [\<lparr>id_card = ''b'', position = \<lparr>x = 5, y = 5\<rparr>, text_card = ''B''\<rparr>,
                     \<lparr>id_card = ''a'', position = \<lparr>x = 7, y = 7\<rparr>, text_card = ''A''\<rparr>]
   \<and> id_card ([\<lparr>id_card = ''b'', position = \<lparr>x = 5, y = 5\<rparr>, text_card = ''B''\<rparr>,
                \<lparr>id_card = ''a'', position = \<lparr>x = 7, y = 7\<rparr>, text_card = ''A''\<rparr>] ! 0) \<noteq> ''a''
   \<and> updateCard_zoom ''a'' \<lparr>position_patch = Some \<lparr>x = 1, y = 2\<rparr>, text_patch = Some ''hi''\<rparr>
        [\<lparr>id_card = ''b'', position = \<lparr>x = 5, y = 5\<rparr>, text_card = ''B''\<rparr>,
         \<lparr>id_card = ''a'', position = \<lparr>x = 7, y = 7\<rparr>, text_card = ''A''\<rparr>]
      = [\<lparr>id_card = ''b'', position = \<lparr>x = 5, y = 5\<rparr>, text_card = ''B''\<rparr>,
         \<lparr>id_card = ''a'', position = \<lparr>x = 1, y = 2\<rparr>, text_card = ''hi''\<rparr>]
   \<and> updateCard_basic ''a'' \<lparr>position_patch = Some \<lparr>x = 1, y = 2\<rparr>, text_patch = Some ''hi''\<rparr>
        [\<lparr>id_card = ''b'', position = \<lparr>x = 5, y = 5\<rparr>, text_card = ''B''\<rparr>,
         \<lparr>id_card = ''a'', position = \<lparr>x = 7, y = 7\<rparr>, text_card = ''A''\<rparr>] ! 0
      = \<lparr>id_card = ''b'', position = \<lparr>x = 5, y = 5\<rparr>, text_card = ''B''\<rparr>"
  using updateCard_frame [of "''a''"
      "\<lparr>position_patch = Some \<lparr>x = 1, y = 2\<rparr>, text_patch = Some ''hi''\<rparr>"
      "[\<lparr>id_card = ''b'', position = \<lparr>x = 5, y = 5\<rparr>, text_card = ''B''\<rparr>,
        \<lparr>id_card = ''a'', position = \<lparr>x = 7, y = 7\<rparr>, text_card = ''A''\<rparr>]"]
  by (simp add: updateCard_zoom_def updateCard_basic_def setCards_where_def assign_patch_def)

section \<open>Properties of zooming, panning and dragging\<close>

lemma clamp_scale_bounds:
  "MIN_SCALE \<le> clamp v MIN_SCALE MAX_SCALE \<and> clamp v MIN_SCALE MAX_SCALE \<le> MAX_SCALE"
  by (simp add: clamp_def MIN_SCALE_def MAX_SCALE_def)

lemma handleWheel_scale:
  "scale (handleWheel e pos) =
     clamp (if deltaY e < 0 then scale pos + \<bar>deltaY e\<bar> * SCALING_FACTOR
            else scale pos - \<bar>deltaY e\<bar> * SCALING_FACTOR) MIN_SCALE MAX_SCALE"
  by (simp add: handleWheel_def Let_def)

lemmas handleWheel_eval =
  handleWheel_def Let_def clamp_def MIN_SCALE_def MAX_SCALE_def SCALING_FACTOR_def

text \<open>
  Claim C9. After every invocation of \<^verbatim>\<open>handleWheel\<close> the canvas scale lies in the
  closed interval from 0.25 to 5 (\<^verbatim>\<open>MIN_SCALE\<close> to \<^verbatim>\<open>MAX_SCALE\<close>), whatever the
  scale was before, a value out of that range included.
\<close>

theorem handleWheel_scale_in_range:
  "0.25 \<le> scale (handleWheel e pos) \<and> scale (handleWheel e pos) \<le> 5"
  using clamp_scale_bounds unfolding handleWheel_scale MIN_SCALE_def MAX_SCALE_def by simp

theorem handleWheel_scale_in_range_witness:
  "scale (handleWheel \<lparr>clientX = 10, clientY = 20, deltaY = 1000\<rparr> \<lparr>x = 0, y = 0, scale = -3\<rparr>) = 0.25
   \<and> (0.25::real) \<le> 0.25 \<and> (0.25::real) \<le> 5"
  using handleWheel_scale_in_range [of "\<lparr>clientX = 10, clientY = 20, deltaY = 1000\<rparr>"
      "\<lparr>x = 0, y = 0, scale = -3\<rparr>"]
  by (simp add: handleWheel_eval)



section \<open>Properties of double precision arithmetic\<close>

text \<open>
  Rounding to the nearest integer is off by at most one half, and is determined by an
  integer within less than one half, or by an even integer at exactly one half.
\<close>

lemma round_nearest_even_error: "\<bar>of_int (round_nearest_even z) - z\<bar> \<le> 1/2"
  unfolding round_nearest_even_def Let_def by (auto simp: abs_if) linarith+

lemma round_nearest_even_eqI: "\<bar>z - of_int m\<bar> < 1/2 \<Longrightarrow> round_nearest_even z = m"
proof -
  assume a: "\<bar>z - of_int m\<bar> < 1/2"
  show ?thesis
  proof (cases "of_int m \<le> z")
    case True
    with a have "\<lfloor>z\<rfloor> = m" by (intro floor_unique) (auto simp: abs_if)
    with a True show ?thesis by (simp add: round_nearest_even_def Let_def abs_if)
  next
    case False
    with a have f: "\<lfloor>z\<rfloor> = m - 1" by (intro floor_unique) (auto simp: abs_if)
    with a False show ?thesis by (auto simp: round_nearest_even_def Let_def abs_if)
  qed
qed

lemma round_nearest_even_tieI:
  assumes "\<bar>z - of_int m\<bar> = 1/2" and "even m"
  shows "round_nearest_even z = m"
proof (cases "of_int m \<le> z")
  case True
  with assms(1) have z: "z = of_int m + 1/2" by (simp add: abs_if)
  then have "\<lfloor>z\<rfloor> = m" by (intro floor_unique) auto
  with z assms(2) show ?thesis by (simp add: round_nearest_even_def Let_def)
next
  case False
  with assms(1) have z: "z = of_int m - 1/2" by (simp add: abs_if split: if_splits)
  then have "\<lfloor>z\<rfloor> = m - 1" by (intro floor_unique) auto
  with z assms(2) show ?thesis by (simp add: round_nearest_even_def Let_def)
qed

lemma round_nearest_even_of_int [simp]: "round_nearest_even (of_int i) = i"
  by (rule round_nearest_even_eqI) simp

text \<open>
  The double nearest to \<open>r\<close>, once the binade of \<open>r\<close> and the rounded significand are
  known; and the relative error of rounding, at most 2 to the power -53 outside the
  subnormal range.
\<close>

lemma floor_log2_iff:
  assumes "0 < a"
  shows "(\<lfloor>log 2 a\<rfloor> = k) = (2 powi k \<le> a \<and> a < 2 powi (k + 1))"
proof -
  have a: "(2::real) powi k = 2 powr real_of_int k"
    by (rule powr_real_of_int' [symmetric]) simp_all
  have b: "(2::real) powi (k + 1) = 2 powr real_of_int (k + 1)"
    by (rule powr_real_of_int' [symmetric]) simp_all
  show ?thesis
    unfolding a b by (rule floor_log_eq_powr_iff) (use assms in simp_all)
qed

lemma halvings_bounds: "1 \<le> r \<Longrightarrow> 2 ^ halvings r \<le> r \<and> r < 2 ^ Suc (halvings r)"
proof (induction r rule: halvings.induct)
  case (1 r)
  show ?case
  proof (cases "r < 2")
    case True
    with "1.prems" show ?thesis by (simp add: halvings.simps [of r])
  next
    case False
    then have "1 \<le> r / 2" by simp
    with "1.IH" False have "2 ^ halvings (r / 2) \<le> r / 2 \<and> r / 2 < 2 ^ Suc (halvings (r / 2))"
      by simp
    with False show ?thesis by (simp add: halvings.simps [of r])
  qed
qed

lemma doublings_bounds:
  "0 < r \<Longrightarrow> r < 1 \<Longrightarrow> 1 \<le> 2 ^ doublings r * r \<and> 2 ^ doublings r * r < 2"
proof (induction r rule: doublings.induct)
  case (1 r)
  show ?case
  proof (cases "1 \<le> 2 * r")
    case True
    with "1.prems" have "doublings (2 * r) = 0" by (simp add: doublings.simps [of "2 * r"])
    with "1.prems" True show ?thesis by (simp add: doublings.simps [of r])
  next
    case False
    with "1.prems" "1.IH"
    have "1 \<le> 2 ^ doublings (2 * r) * (2 * r) \<and> 2 ^ doublings (2 * r) * (2 * r) < 2"
      by simp
    with "1.prems" show ?thesis by (simp add: doublings.simps [of r])
  qed
qed

lemma binade_bounds:
  assumes "r \<noteq> 0"
  shows "2 powi binade r \<le> \<bar>r\<bar> \<and> \<bar>r\<bar> < 2 powi (binade r + 1)"
proof (cases "1 \<le> \<bar>r\<bar>")
  case True
  have "(2::real) powi (int (halvings \<bar>r\<bar>) + 1) = 2 ^ Suc (halvings \<bar>r\<bar>)"
    by (simp add: power_int_add)
  with True halvings_bounds [OF True] show ?thesis
    by (simp add: binade_def)
next
  case False
  define n where "n = doublings \<bar>r\<bar>"
  have b: "1 \<le> 2 ^ n * \<bar>r\<bar>" "2 ^ n * \<bar>r\<bar> < 2"
    using doublings_bounds [of "\<bar>r\<bar>"] assms False by (simp_all add: n_def)
  have p: "(2::real) powi (- int n) = 1 / 2 ^ n"
    by (simp add: power_int_minus_divide)
  have q: "(2::real) powi (- int n + 1) = 2 / 2 ^ n"
    by (simp add: power_int_diff)
  have "2 powi (- int n) \<le> \<bar>r\<bar>" unfolding p using b(1) by (simp add: field_simps)
  moreover have "\<bar>r\<bar> < 2 powi (- int n + 1)" unfolding q using b(2) by (simp add: field_simps)
  ultimately show ?thesis using False by (simp add: binade_def n_def)
qed

lemma binade_eq_floor_log:
  assumes "r \<noteq> 0"
  shows "binade r = \<lfloor>log 2 \<bar>r\<bar>\<rfloor>"
  using floor_log2_iff [of "\<bar>r\<bar>" "binade r"] binade_bounds [OF assms] assms by simp

lemma ulp_exponent_log: "r \<noteq> 0 \<Longrightarrow> ulp_exponent r = max \<lfloor>log 2 \<bar>r\<bar>\<rfloor> (- 1022) - 52"
  by (simp add: ulp_exponent_def binade_eq_floor_log)

lemma ulp_exponent_eqI:
  assumes "2 powi (k + 52) \<le> \<bar>r\<bar>" and "\<bar>r\<bar> < 2 powi (k + 53)" and "- 1074 \<le> k"
  shows "ulp_exponent r = k"
proof -
  have pos: "0 < \<bar>r\<bar>"
    using assms(1) by (smt (verit) zero_less_power_int)
  have "\<lfloor>log 2 \<bar>r\<bar>\<rfloor> = k + 52"
    using assms(1,2) pos floor_log2_iff [of "\<bar>r\<bar>" "k + 52"]
    by (simp add: add.assoc)
  moreover have "r \<noteq> 0" using pos by simp
  ultimately show ?thesis using assms(3) by (simp add: ulp_exponent_log)
qed

lemma fl_eqI:
  assumes "2 powi (k + 52) \<le> \<bar>r\<bar>" and "\<bar>r\<bar> < 2 powi (k + 53)" and "- 1074 \<le> k"
    and "round_nearest_even (r / 2 powi k) = m"
  shows "fl r = of_int m * 2 powi k"
proof -
  have "r \<noteq> 0" using assms(1) by (smt (verit) zero_less_power_int abs_zero)
  then show ?thesis
    using ulp_exponent_eqI [OF assms(1-3)] assms(4)
    by (simp add: fl_def)
qed

lemma fl_error:
  assumes "2 powi (- 1022) \<le> \<bar>r\<bar>"
  shows "\<bar>fl r - r\<bar> \<le> \<bar>r\<bar> / 2 ^ 53"
proof -
  have pos: "0 < \<bar>r\<bar>" using assms by (smt (verit) zero_less_power_int)
  then have nz: "r \<noteq> 0" by simp
  define e where "e = \<lfloor>log 2 \<bar>r\<bar>\<rfloor>"
  have e: "2 powi e \<le> \<bar>r\<bar>" "\<bar>r\<bar> < 2 powi (e + 1)"
    using floor_log2_iff [of "\<bar>r\<bar>" e] pos
    by (simp_all add: e_def)
  have "(2::real) powi (- 1022) < 2 powi (e + 1)"
    using assms e(2) by linarith
  then have "- 1022 < e + 1"
    using power_int_increasing [of "e + 1" "- 1022" "2::real"] by (cases "- 1022 < e + 1") auto
  then have k: "ulp_exponent r = e - 52" using nz by (simp add: ulp_exponent_log e_def)
  define p :: real where "p = 2 powi (e - 52)"
  have p: "0 < p" by (simp add: p_def)
  have pe: "p * 2 ^ 52 = 2 powi e"
    by (simp add: p_def power_int_diff)
  have "fl r - r = (of_int (round_nearest_even (r / p)) - r / p) * p"
    using nz p by (simp add: fl_def k p_def field_simps)
  then have "\<bar>fl r - r\<bar> = \<bar>of_int (round_nearest_even (r / p)) - r / p\<bar> * p"
    using p by (simp add: abs_mult)
  also have "\<dots> \<le> (1/2) * p"
    using round_nearest_even_error [of "r / p"] p by (intro mult_right_mono) auto
  also have "\<dots> = 2 powi e / 2 ^ 53" using pe by (simp add: field_simps)
  also have "\<dots> \<le> \<bar>r\<bar> / 2 ^ 53" using e(1) by (simp add: divide_right_mono)
  finally show ?thesis .
qed

lemma fl_0 [simp]: "fl 0 = 0"
  by (simp add: fl_def)

lemma fl_error_normal: "normal r \<Longrightarrow> \<bar>fl r - r\<bar> \<le> \<bar>r\<bar> / 2 ^ 53"
proof (cases "r = 0")
  case True then show ?thesis by simp
next
  case False
  assume "normal r"
  with False have "1 / 2 ^ 1022 \<le> \<bar>r\<bar>" by (simp add: normal_def)
  moreover have "(2::real) powi (- 1022) = 1 / 2 ^ 1022"
    by (simp add: power_int_minus_divide)
  ultimately show ?thesis using fl_error [of r] by simp
qed

lemma fl_eq_div_roundI:
  assumes "j \<le> 1074" and "2 ^ 52 \<le> \<bar>r\<bar> * 2 ^ j" and "\<bar>r\<bar> * 2 ^ j < 2 ^ 53"
    and "round_nearest_even (r * 2 ^ j) = m"
  shows "fl r = of_int m / 2 ^ j"
proof -
  have p: "(2::real) powi (- int j) = 1 / 2 ^ j"
    by (simp add: power_int_minus_divide)
  have a: "(2::real) powi (- int j + 52) = 2 ^ 52 / 2 ^ j"
    by (simp add: power_int_diff)
  have b: "(2::real) powi (- int j + 53) = 2 ^ 53 / 2 ^ j"
    by (simp add: power_int_diff)
  have "fl r = of_int m * 2 powi (- int j)"
  proof (rule fl_eqI)
    show "2 powi (- int j + 52) \<le> \<bar>r\<bar>" unfolding a using assms(2) by (simp add: field_simps)
    show "\<bar>r\<bar> < 2 powi (- int j + 53)" unfolding b using assms(3) by (simp add: field_simps)
    show "- 1074 \<le> - int j" using assms(1) by simp
    show "round_nearest_even (r / 2 powi (- int j)) = m" unfolding p using assms(4) by simp
  qed
  then show ?thesis unfolding p by simp
qed

lemma fl_eq_divI:
  assumes "j \<le> 1074" and "2 ^ 52 \<le> \<bar>r\<bar> * 2 ^ j" and "\<bar>r\<bar> * 2 ^ j < 2 ^ 53"
    and "\<bar>r * 2 ^ j - of_int m\<bar> < 1/2"
  shows "fl r = of_int m / 2 ^ j"
  using assms(1-3) round_nearest_even_eqI [OF assms(4)] by (rule fl_eq_div_roundI)

lemma fl_eq_div_tieI:
  assumes "j \<le> 1074" and "2 ^ 52 \<le> \<bar>r\<bar> * 2 ^ j" and "\<bar>r\<bar> * 2 ^ j < 2 ^ 53"
    and "\<bar>r * 2 ^ j - of_int m\<bar> = 1/2" and "even m"
  shows "fl r = of_int m / 2 ^ j"
  using assms(1-3) round_nearest_even_tieI [OF assms(4,5)] by (rule fl_eq_div_roundI)

text \<open>Every integer below 2 to the power 53 in magnitude is a double.\<close>

lemma fl_of_int:
  assumes "\<bar>m\<bar> < 2 ^ 53"
  shows "fl (of_int m) = of_int m"
proof (cases "m = 0")
  case True then show ?thesis by simp
next
  case False
  define e where "e = \<lfloor>log 2 \<bar>real_of_int m\<bar>\<rfloor>"
  have pos: "0 < \<bar>real_of_int m\<bar>" using False by simp
  have e: "2 powi e \<le> \<bar>real_of_int m\<bar>" "\<bar>real_of_int m\<bar> < 2 powi (e + 1)"
    using floor_log2_iff [of "\<bar>real_of_int m\<bar>" e] pos by (simp_all add: e_def)
  have "1 \<le> \<bar>real_of_int m\<bar>" using False by (simp flip: of_int_abs)
  with e(2) have "(2::real) powi 0 < 2 powi (e + 1)" by simp
  then have e0: "0 \<le> e"
    using power_int_increasing [of "e + 1" 0 "2::real"] by (cases "0 < e + 1") auto
  have "\<bar>real_of_int m\<bar> < 2 powi 53" using assms by (simp flip: of_int_abs) 
  with e(1) have "(2::real) powi e < 2 powi 53" by linarith
  then have e52: "e \<le> 52"
    using power_int_increasing [of 53 e "2::real"] by (cases "e < 53") auto
  have k: "ulp_exponent (of_int m) = e - 52"
  proof -
    have "ulp_exponent (of_int m) = max e (- 1022) - 52"
      using False by (simp add: ulp_exponent_log e_def)
    with e0 show ?thesis by simp
  qed
  have p: "(2::real) powi (e - 52) = 1 / 2 ^ nat (52 - e)"
    using e52 power_int_minus_divide [of "2::real" "52 - e"] by (simp add: power_int_def)
  have "real_of_int m / 2 powi (e - 52) = of_int (m * 2 ^ nat (52 - e))"
    by (simp add: p)
  then have "round_nearest_even (real_of_int m / 2 powi (e - 52)) = m * 2 ^ nat (52 - e)"
    by (simp only: round_nearest_even_of_int)
  then show ?thesis
    using False by (simp add: fl_def k p)
qed

lemma fl_numeral [simp]: "numeral n < (2::real) ^ 53 \<Longrightarrow> fl (numeral n) = numeral n"
  using fl_of_int [of "numeral n"] by (simp flip: of_int_less_iff [where 'a = real])

lemma fl_neg_numeral [simp]: "numeral n < (2::real) ^ 53 \<Longrightarrow> fl (- numeral n) = - numeral n"
  using fl_of_int [of "- numeral n"] by (simp flip: of_int_less_iff [where 'a = real])

lemma fl_1 [simp]: "fl 1 = 1"
  using fl_of_int [of 1] by simp

text \<open>The double that the literal \<^verbatim>\<open>0.01\<close> denotes.\<close>

lemma fl_one_hundredth: "fl (1 / 100) = 5764607523034235 / 576460752303423488"
  using fl_eq_divI [of 59 "1 / 100" "5764607523034235"] by simp

lemmas handleWheel_double_eval =
  handleWheel_double_def SCALING_FACTOR_double_def SCALING_FACTOR_def world_double_def
  fadd_def fsub_def fmul_def fdiv_def Let_def clamp_def MIN_SCALE_def MAX_SCALE_def
  fl_one_hundredth

subsection \<open>Zooming in doubles\<close>

lemma zoom_axis_arith:
  fixes A B C E G X Ea Eb Ec Ed Sc Sd :: real
  assumes "0 \<le> A" and "0 \<le> X" and "0 \<le> C"
    and "Ea \<le> A / 2 ^ 53" and "Eb \<le> B / 2 ^ 53"
    and "Sc \<le> A + Ea + Eb" and "Ec \<le> Sc / 2 ^ 53"
    and "Sd \<le> A + Ea + Eb + Ec" and "Ed \<le> Sd / 2 ^ 53"
    and "G \<le> Ed + Ea + Eb + Ec"
    and "B \<le> 4 * C" and "C \<le> X + E" and "E \<le> C / 2 ^ 53"
  shows "G \<le> (A + X) / 2 ^ 49"
  using assms by simp

lemma zoom_axis_bound:
  fixes q0 n c t x1 w q1 :: real
  assumes n: "1/4 \<le> n"
    and e1: "\<bar>t - q0 * n\<bar> \<le> \<bar>q0 * n\<bar> / 2 ^ 53"
    and e2: "\<bar>x1 - (c - t)\<bar> \<le> \<bar>c - t\<bar> / 2 ^ 53"
    and e3: "\<bar>w - (c - x1)\<bar> \<le> \<bar>c - x1\<bar> / 2 ^ 53"
    and e4: "\<bar>q1 - w / n\<bar> \<le> \<bar>w / n\<bar> / 2 ^ 53"
  shows "\<bar>q1 - q0\<bar> \<le> (\<bar>q0\<bar> + \<bar>x1\<bar>) / 2 ^ 49"
proof -
  have npos: "0 < n" using n by simp
  define a1 where "a1 = t / n - q0"
  define a2 where "a2 = (x1 - (c - t)) / n"
  define a3 where "a3 = (w - (c - x1)) / n"
  have d: "\<bar>v / n\<bar> = \<bar>v\<bar> / n" for v using npos by simp
  have b1: "\<bar>a1\<bar> \<le> \<bar>q0\<bar> / 2 ^ 53"
  proof -
    have "a1 = (t - q0 * n) / n" using npos by (simp add: a1_def field_simps)
    then have "\<bar>a1\<bar> = \<bar>(t - q0 * n) / n\<bar>" by (simp only:)
    also have "\<dots> = \<bar>t - q0 * n\<bar> / n" by (rule d)
    also have "\<dots> \<le> (\<bar>q0 * n\<bar> / 2 ^ 53) / n" by (rule divide_right_mono) (use e1 npos in simp_all)
    also have "\<dots> = \<bar>q0\<bar> / 2 ^ 53" using npos by (simp add: abs_mult)
    finally show ?thesis .
  qed
  have b2: "\<bar>a2\<bar> \<le> (\<bar>c - t\<bar> / n) / 2 ^ 53"
  proof -
    have "\<bar>a2\<bar> = \<bar>x1 - (c - t)\<bar> / n" unfolding a2_def by (rule d)
    also have "\<dots> \<le> (\<bar>c - t\<bar> / 2 ^ 53) / n" by (rule divide_right_mono) (use e2 npos in simp_all)
    finally show ?thesis by simp
  qed
  have cx: "(c - x1) / n = q0 + a1 - a2"
    using npos by (simp add: a1_def a2_def field_simps)
  have b3: "\<bar>a3\<bar> \<le> \<bar>q0 + a1 - a2\<bar> / 2 ^ 53"
  proof -
    have "\<bar>a3\<bar> = \<bar>w - (c - x1)\<bar> / n" unfolding a3_def by (rule d)
    also have "\<dots> \<le> (\<bar>c - x1\<bar> / 2 ^ 53) / n" by (rule divide_right_mono) (use e3 npos in simp_all)
    also have "\<dots> = \<bar>(c - x1) / n\<bar> / 2 ^ 53" unfolding d by simp
    finally show ?thesis by (simp only: cx)
  qed
  have wn: "w / n = q0 + a1 - a2 + a3"
    using cx npos by (simp add: a3_def field_simps)
  have b4: "\<bar>q1 - (q0 + a1 - a2 + a3)\<bar> \<le> \<bar>q0 + a1 - a2 + a3\<bar> / 2 ^ 53"
    using e4 by (simp only: wn)
  have B4: "\<bar>c - t\<bar> / n \<le> 4 * \<bar>c - t\<bar>"
  proof -
    have "\<bar>c - t\<bar> / n \<le> \<bar>c - t\<bar> / (1/4)"
      using n by (intro divide_left_mono) auto
    then show ?thesis by simp
  qed
  show ?thesis
  proof (rule zoom_axis_arith [where Ea = "\<bar>a1\<bar>" and Eb = "\<bar>a2\<bar>" and Ec = "\<bar>a3\<bar>"
        and B = "\<bar>c - t\<bar> / n" and C = "\<bar>c - t\<bar>" and E = "\<bar>x1 - (c - t)\<bar>"
        and Sc = "\<bar>q0 + a1 - a2\<bar>" and Sd = "\<bar>q0 + a1 - a2 + a3\<bar>"
        and Ed = "\<bar>q1 - (q0 + a1 - a2 + a3)\<bar>"])
    show "\<bar>q0 + a1 - a2\<bar> \<le> \<bar>q0\<bar> + \<bar>a1\<bar> + \<bar>a2\<bar>" by linarith
    show "\<bar>q0 + a1 - a2 + a3\<bar> \<le> \<bar>q0\<bar> + \<bar>a1\<bar> + \<bar>a2\<bar> + \<bar>a3\<bar>" by linarith
    show "\<bar>q1 - q0\<bar> \<le> \<bar>q1 - (q0 + a1 - a2 + a3)\<bar> + \<bar>a1\<bar> + \<bar>a2\<bar> + \<bar>a3\<bar>" by linarith
    show "\<bar>c - t\<bar> \<le> \<bar>x1\<bar> + \<bar>x1 - (c - t)\<bar>" by linarith
  qed (use b1 b2 b3 b4 B4 e2 in simp_all)
qed

lemma zoom_axis_fl_bound:
  assumes "1/4 \<le> n"
    and "normal (q0 * n)"
    and "normal (c - fl (q0 * n))"
    and "normal (c - fl (c - fl (q0 * n)))"
    and "normal (fl (c - fl (c - fl (q0 * n))) / n)"
  shows "\<bar>fl (fl (c - fl (c - fl (q0 * n))) / n) - q0\<bar> \<le> (\<bar>q0\<bar> + \<bar>fl (c - fl (q0 * n))\<bar>) / 2 ^ 49"
  by (rule zoom_axis_bound [OF assms(1)]) (rule fl_error_normal, fact)+

text \<open>
  The roundings of the example below: 53 times the scaling factor, 1 minus that (the
  double nearest to 0.47), 7 times the new scale (a tie, which goes to the even
  significand), 7 minus that (the double nearest to 3.71), 7 minus the new offset, and
  that divided by the new scale.
\<close>

lemma wheel_example_roundings:
  "fl (305524198720814455 / 576460752303423488) = 2386907802506363 / 4503599627370496"
  "fl (2116691824864133 / 4503599627370496) = 2116691824864133 / 4503599627370496"
  "fl (14816842774048931 / 4503599627370496) = 3704210693512233 / 1125899906842624"
  "fl (4177088654386135 / 1125899906842624) = 4177088654386135 / 1125899906842624"
  "fl (3704210693512233 / 1125899906842624) = 3704210693512233 / 1125899906842624"
  "fl (14816842774048932 / 2116691824864133) = 7881299347898369 / 1125899906842624"
proof -
  show "fl (305524198720814455 / 576460752303423488) = 2386907802506363 / 4503599627370496"
    using fl_eq_divI [of 53 "305524198720814455 / 576460752303423488" "4773815605012726"] by simp
  show "fl (2116691824864133 / 4503599627370496) = 2116691824864133 / 4503599627370496"
    using fl_eq_divI [of 54 "2116691824864133 / 4503599627370496" "8466767299456532"] by simp
  show "fl (14816842774048931 / 4503599627370496) = 3704210693512233 / 1125899906842624"
    using fl_eq_div_tieI [of 51 "14816842774048931 / 4503599627370496" "7408421387024466"] by simp
  show "fl (4177088654386135 / 1125899906842624) = 4177088654386135 / 1125899906842624"
    using fl_eq_divI [of 51 "4177088654386135 / 1125899906842624" "8354177308772270"] by simp
  show "fl (3704210693512233 / 1125899906842624) = 3704210693512233 / 1125899906842624"
    using fl_eq_divI [of 51 "3704210693512233 / 1125899906842624" "7408421387024466"] by simp
  show "fl (14816842774048932 / 2116691824864133) = 7881299347898369 / 1125899906842624"
    using fl_eq_divI [of 50 "14816842774048932 / 2116691824864133" "7881299347898369"] by simp
qed

text \<open>
  Claim C2, as the spec states it: for every wheel event that \<^verbatim>\<open>handleWheel\<close>
  processes while the current scale is not 0, \<^verbatim>\<open>(e.clientX - position.x) / position.scale\<close>
  and \<^verbatim>\<open>(e.clientY - position.y) / position.scale\<close> have the same value before and
  after the update. In doubles they have not. With pan offset (0, 0) and scale 1, a
  wheel event at (7, 7) with \<^verbatim>\<open>deltaY\<close> 53 stores the doubles nearest to 3.71 as the
  offset and to 0.47 as the scale; the world coordinate of the cursor is 7 before and
  7.000000000000001 after, whether the quotient is taken in doubles or exactly.
\<close>

theorem handleWheel_double_moves_cursor_point:
  "handleWheel_double \<lparr>clientX = 7, clientY = 7, deltaY = 53\<rparr> \<lparr>x = 0, y = 0, scale = 1\<rparr>
     = \<lparr>x = 4177088654386135 / 1125899906842624, y = 4177088654386135 / 1125899906842624,
        scale = 2116691824864133 / 4503599627370496\<rparr>
   \<and> world_double 7 0 1 = 7
   \<and> world_double 7 (4177088654386135 / 1125899906842624) (2116691824864133 / 4503599627370496)
       = 7881299347898369 / 1125899906842624
   \<and> 7881299347898369 / 1125899906842624 \<noteq> (7::real)
   \<and> (7 - 4177088654386135 / 1125899906842624) / (2116691824864133 / 4503599627370496) \<noteq> ((7 - 0) / 1 :: real)"
  by (simp add: handleWheel_double_eval wheel_example_roundings)

text \<open>
  Claim C2, amended. For every wheel event that \<^verbatim>\<open>handleWheel\<close> processes while the
  current scale is not 0, the world coordinate of the cursor is preserved up to
  rounding, not exactly: on each axis, when the exact results of the computation are
  normal (no overflow, nothing in the subnormal range), the world coordinate after the
  update differs from the one before by at most 2 to the power -49 times the sum of
  the magnitudes of the world coordinate before and of the new pan offset.
\<close>

theorem handleWheel_double_zoom_to_cursor:
  assumes "scale pos \<noteq> 0"
    and "wheel_axis_normal (clientX e) (x pos) (scale pos) (scale (handleWheel_double e pos))"
    and "wheel_axis_normal (clientY e) (y pos) (scale pos) (scale (handleWheel_double e pos))"
  shows "\<bar>world_double (clientX e) (x (handleWheel_double e pos)) (scale (handleWheel_double e pos))
            - world_double (clientX e) (x pos) (scale pos)\<bar>
           \<le> (\<bar>world_double (clientX e) (x pos) (scale pos)\<bar> + \<bar>x (handleWheel_double e pos)\<bar>) / 2 ^ 49
       \<and> \<bar>world_double (clientY e) (y (handleWheel_double e pos)) (scale (handleWheel_double e pos))
            - world_double (clientY e) (y pos) (scale pos)\<bar>
           \<le> (\<bar>world_double (clientY e) (y pos) (scale pos)\<bar> + \<bar>y (handleWheel_double e pos)\<bar>) / 2 ^ 49"
proof -
  define n where "n = scale (handleWheel_double e pos)"
  have n: "1/4 \<le> n"
    using clamp_scale_bounds
    unfolding n_def handleWheel_double_def Let_def MIN_SCALE_def by simp
  have X: "x (handleWheel_double e pos)
             = fsub (clientX e) (fmul (fdiv (fsub (clientX e) (x pos)) (scale pos)) n)"
    by (simp add: n_def handleWheel_double_def Let_def)
  have Y: "y (handleWheel_double e pos)
             = fsub (clientY e) (fmul (fdiv (fsub (clientY e) (y pos)) (scale pos)) n)"
    by (simp add: n_def handleWheel_double_def Let_def)
  have hx: "wheel_axis_normal (clientX e) (x pos) (scale pos) n"
    using assms(2) by (simp only: n_def)
  have hy: "wheel_axis_normal (clientY e) (y pos) (scale pos) n"
    using assms(3) by (simp only: n_def)
  have "\<bar>world_double (clientX e) (x (handleWheel_double e pos)) n
            - world_double (clientX e) (x pos) (scale pos)\<bar>
           \<le> (\<bar>world_double (clientX e) (x pos) (scale pos)\<bar> + \<bar>x (handleWheel_double e pos)\<bar>) / 2 ^ 49"
    using hx unfolding X world_double_def wheel_axis_normal_def Let_def fsub_def fmul_def fdiv_def
    by (intro zoom_axis_fl_bound [OF n]) simp_all
  moreover have "\<bar>world_double (clientY e) (y (handleWheel_double e pos)) n
            - world_double (clientY e) (y pos) (scale pos)\<bar>
           \<le> (\<bar>world_double (clientY e) (y pos) (scale pos)\<bar> + \<bar>y (handleWheel_double e pos)\<bar>) / 2 ^ 49"
    using hy unfolding Y world_double_def wheel_axis_normal_def Let_def fsub_def fmul_def fdiv_def
    by (intro zoom_axis_fl_bound [OF n]) simp_all
  ultimately show ?thesis by (simp only: n_def)
qed

theorem handleWheel_double_zoom_to_cursor_witness:
  "scale \<lparr>x = 0, y = 0, scale = 1\<rparr> \<noteq> 0
   \<and> wheel_axis_normal 7 0 1 (2116691824864133 / 4503599627370496)
   \<and> world_double 7 0 1 = 7
   \<and> x (handleWheel_double \<lparr>clientX = 7, clientY = 7, deltaY = 53\<rparr> \<lparr>x = 0, y = 0, scale = 1\<rparr>)
       = 4177088654386135 / 1125899906842624
   \<and> world_double 7 (4177088654386135 / 1125899906842624) (2116691824864133 / 4503599627370496)
       = 7881299347898369 / 1125899906842624
   \<and> \<bar>7881299347898369 / 1125899906842624 - 7\<bar>
       \<le> (\<bar>7\<bar> + \<bar>4177088654386135 / 1125899906842624\<bar>) / (2 ^ 49 :: real)"
  using handleWheel_double_zoom_to_cursor [of "\<lparr>x = 0, y = 0, scale = 1\<rparr>"
      "\<lparr>clientX = 7, clientY = 7, deltaY = 53\<rparr>"]
  by (simp add: handleWheel_double_eval wheel_axis_normal_def normal_def max_double_def
      wheel_example_roundings)

subsection \<open>Dragging a card in doubles\<close>

lemma drag_axis_arith:
  fixes E T X :: real
  assumes "T \<le> X + E" and "E \<le> T / 2 ^ 53" and "0 \<le> E"
  shows "E \<le> 2 * X / 2 ^ 53"
  using assms by simp

lemma drag_axis_bound:
  fixes s d dq x0 x1 :: real
  assumes s: "s \<noteq> 0"
    and e1: "\<bar>dq - d / s\<bar> \<le> \<bar>d / s\<bar> / 2 ^ 53"
    and e2: "\<bar>x1 - (x0 + dq)\<bar> \<le> \<bar>x0 + dq\<bar> / 2 ^ 53"
  shows "\<bar>s * (x1 - x0) - d\<bar> \<le> \<bar>d\<bar> / 2 ^ 53 + \<bar>s * x1\<bar> / 2 ^ 52"
proof -
  have spos: "0 < \<bar>s\<bar>" using s by simp
  have split: "s * (x1 - x0) - d = s * (x1 - (x0 + dq)) + s * (dq - d / s)"
    using s by (simp add: field_simps)
  have p1: "\<bar>s * (dq - d / s)\<bar> \<le> \<bar>d\<bar> / 2 ^ 53"
  proof -
    have "\<bar>s * (dq - d / s)\<bar> = \<bar>s\<bar> * \<bar>dq - d / s\<bar>" by (rule abs_mult)
    also have "\<dots> \<le> \<bar>s\<bar> * (\<bar>d / s\<bar> / 2 ^ 53)" by (rule mult_left_mono) (use e1 in simp_all)
    also have "\<dots> = \<bar>d\<bar> / 2 ^ 53" using s by (simp add: abs_divide)
    finally show ?thesis .
  qed
  have tri: "\<bar>x0 + dq\<bar> \<le> \<bar>x1\<bar> + \<bar>x1 - (x0 + dq)\<bar>" by linarith
  have near: "\<bar>x1 - (x0 + dq)\<bar> \<le> 2 * \<bar>x1\<bar> / 2 ^ 53"
    by (rule drag_axis_arith [OF tri e2]) simp
  have p2: "\<bar>s * (x1 - (x0 + dq))\<bar> \<le> \<bar>s * x1\<bar> / 2 ^ 52"
  proof -
    have "\<bar>s * (x1 - (x0 + dq))\<bar> = \<bar>s\<bar> * \<bar>x1 - (x0 + dq)\<bar>" by (rule abs_mult)
    also have "\<dots> \<le> \<bar>s\<bar> * (2 * \<bar>x1\<bar> / 2 ^ 53)" by (rule mult_left_mono) (use near in simp_all)
    also have "\<dots> = \<bar>s * x1\<bar> / 2 ^ 52" by (simp add: abs_mult)
    finally show ?thesis .
  qed
  have "\<bar>s * (x1 - x0) - d\<bar> \<le> \<bar>s * (x1 - (x0 + dq))\<bar> + \<bar>s * (dq - d / s)\<bar>"
    unfolding split by (rule abs_triangle_ineq)
  with p1 p2 show ?thesis by linarith
qed

lemma drag_axis_fl_bound:
  assumes "s \<noteq> 0" and "normal (d / s)" and "normal (x0 + fl (d / s))"
  shows "\<bar>s * (fl (x0 + fl (d / s)) - x0) - d\<bar>
           \<le> \<bar>d\<bar> / 2 ^ 53 + \<bar>s * fl (x0 + fl (d / s))\<bar> / 2 ^ 52"
  by (rule drag_axis_bound [OF assms(1)]) (rule fl_error_normal, fact)+

text \<open>
  The roundings of the example below: one third, and 100 plus the double nearest to
  one third (the double 100.33333333333333).
\<close>

lemma drag_example_roundings:
  "fl (1 / 3) = 6004799503160661 / 18014398509481984"
  "fl (1807444650451359061 / 18014398509481984) = 7060330665825621 / 70368744177664"
proof -
  show "fl (1 / 3) = 6004799503160661 / 18014398509481984"
    using fl_eq_divI [of 54 "1 / 3" "6004799503160661"] by simp
  show "fl (1807444650451359061 / 18014398509481984) = 7060330665825621 / 70368744177664"
    using fl_eq_divI [of 46 "1807444650451359061 / 18014398509481984" "7060330665825621"] by simp
qed

text \<open>
  Claim C6, as the spec states it: in the zoomable variant, for every mousemove during
  a card drag with canvas scale \<open>s\<close> not 0, the stored position of the dragged card
  changes by exactly \<open>(dx / s, dy / s)\<close>, so that the displacement of the card on the
  screen equals that of the cursor. In doubles it does not. A card at x 100, dragged at
  scale 3 by a cursor movement of 1, is stored at the double 100.33333333333333: its
  change is not one third, and three times its change is 0.9999999999999858, not 1.
\<close>

theorem handleMouseMove_zoom_double_overshoots:
  "handleMouseMove_zoom_double 0 3 \<lparr>clientX = 1, clientY = 0\<rparr> (Some \<lparr>x = 0, y = 0\<rparr>, [card_a])
     = (Some \<lparr>x = 1, y = 0\<rparr>,
        [\<lparr>id_card = ''a'', position = \<lparr>x = 7060330665825621 / 70368744177664, y = 100\<rparr>,
          text_card = ''New Card''\<rparr>])
   \<and> 3 * (7060330665825621 / 70368744177664 - 100) \<noteq> (1::real)
   \<and> 7060330665825621 / 70368744177664 - 100 \<noteq> (1 / 3 :: real)"
  by (simp add: fadd_def fsub_def fdiv_def Let_def updateCard_zoom_def setCards_where_def
      assign_patch_def card_a_def drag_example_roundings)

text \<open>
  Claim C6, amended. In the zoomable variant, for every mousemove during a card drag
  with canvas scale \<open>s\<close> not 0, the stored position of the dragged card becomes the
  double nearest to its old value plus the double nearest to \<open>dx / s\<close> (and likewise
  for y), where \<open>(dx, dy)\<close> is the cursor movement since the previous event as doubles
  compute it. The displacement of the card on the screen equals that of the cursor up
  to rounding, not exactly: on each axis, when the exact results of the computation are
  normal, \<open>s\<close> times the change of the coordinate differs from the cursor movement by
  at most 2 to the power -53 times the magnitude of the cursor movement plus 2 to the
  power -52 times the magnitude of \<open>s\<close> times the new coordinate.
\<close>

theorem handleMouseMove_zoom_double_moves_card:
  assumes "card_index < length cs" and "props_scale \<noteq> 0"
    and "drag_axis_normal (clientX e) (x prev) (x (position (cs ! card_index))) props_scale"
    and "drag_axis_normal (clientY e) (y prev) (y (position (cs ! card_index))) props_scale"
  shows "position (snd (handleMouseMove_zoom_double card_index props_scale e (Some prev, cs)) ! card_index)
           = \<lparr>x = fadd (x (position (cs ! card_index))) (fdiv (fsub (clientX e) (x prev)) props_scale),
              y = fadd (y (position (cs ! card_index))) (fdiv (fsub (clientY e) (y prev)) props_scale)\<rparr>
       \<and> \<bar>props_scale *
            (x (position (snd (handleMouseMove_zoom_double card_index props_scale e (Some prev, cs)) ! card_index))
             - x (position (cs ! card_index))) - fsub (clientX e) (x prev)\<bar>
           \<le> \<bar>fsub (clientX e) (x prev)\<bar> / 2 ^ 53
             + \<bar>props_scale *
                 x (position (snd (handleMouseMove_zoom_double card_index props_scale e (Some prev, cs)) ! card_index))\<bar>
               / 2 ^ 52
       \<and> \<bar>props_scale *
            (y (position (snd (handleMouseMove_zoom_double card_index props_scale e (Some prev, cs)) ! card_index))
             - y (position (cs ! card_index))) - fsub (clientY e) (y prev)\<bar>
           \<le> \<bar>fsub (clientY e) (y prev)\<bar> / 2 ^ 53
             + \<bar>props_scale *
                 y (position (snd (handleMouseMove_zoom_double card_index props_scale e (Some prev, cs)) ! card_index))\<bar>
               / 2 ^ 52
       \<and> fst (handleMouseMove_zoom_double card_index props_scale e (Some prev, cs))
           = Some \<lparr>x = clientX e, y = clientY e\<rparr>"
proof -
  have P: "position (snd (handleMouseMove_zoom_double card_index props_scale e (Some prev, cs)) ! card_index)
           = \<lparr>x = fadd (x (position (cs ! card_index))) (fdiv (fsub (clientX e) (x prev)) props_scale),
              y = fadd (y (position (cs ! card_index))) (fdiv (fsub (clientY e) (y prev)) props_scale)\<rparr>"
    using assms(1) by (simp add: Let_def updateCard_zoom_def setCards_where_nth assign_patch_def)
  have bx: "\<bar>props_scale *
              (fadd (x (position (cs ! card_index))) (fdiv (fsub (clientX e) (x prev)) props_scale)
               - x (position (cs ! card_index))) - fsub (clientX e) (x prev)\<bar>
           \<le> \<bar>fsub (clientX e) (x prev)\<bar> / 2 ^ 53
             + \<bar>props_scale *
                 fadd (x (position (cs ! card_index))) (fdiv (fsub (clientX e) (x prev)) props_scale)\<bar> / 2 ^ 52"
    using assms(3) unfolding drag_axis_normal_def Let_def fadd_def fdiv_def
    by (intro drag_axis_fl_bound [OF assms(2)]) simp_all
  have "by": "\<bar>props_scale *
              (fadd (y (position (cs ! card_index))) (fdiv (fsub (clientY e) (y prev)) props_scale)
               - y (position (cs ! card_index))) - fsub (clientY e) (y prev)\<bar>
           \<le> \<bar>fsub (clientY e) (y prev)\<bar> / 2 ^ 53
             + \<bar>props_scale *
                 fadd (y (position (cs ! card_index))) (fdiv (fsub (clientY e) (y prev)) props_scale)\<bar> / 2 ^ 52"
    using assms(4) unfolding drag_axis_normal_def Let_def fadd_def fdiv_def
    by (intro drag_axis_fl_bound [OF assms(2)]) simp_all
  show ?thesis
    unfolding P using bx "by" by (simp add: Let_def)
qed

theorem handleMouseMove_zoom_double_moves_card_witness:
  "(0::nat) < length [card_a] \<and> (3::real) \<noteq> 0
   \<and> drag_axis_normal 1 0 (x (position card_a)) 3
   \<and> drag_axis_normal 0 0 (y (position card_a)) 3
   \<and> position (snd (handleMouseMove_zoom_double 0 3 \<lparr>clientX = 1, clientY = 0\<rparr>
                       (Some \<lparr>x = 0, y = 0\<rparr>, [card_a])) ! 0)
       = \<lparr>x = 7060330665825621 / 70368744177664, y = 100\<rparr>
   \<and> \<bar>3 * (7060330665825621 / 70368744177664 - 100) - 1\<bar>
       \<le> \<bar>1\<bar> / 2 ^ 53 + \<bar>3 * (7060330665825621 / 70368744177664)\<bar> / (2 ^ 52 :: real)"
  using handleMouseMove_zoom_double_moves_card [of 0 "[card_a]" 3
      "\<lparr>clientX = 1, clientY = 0\<rparr>" "\<lparr>x = 0, y = 0\<rparr>"]
  by (simp add: fadd_def fsub_def fdiv_def Let_def updateCard_zoom_def setCards_where_def
      assign_patch_def card_a_def drag_axis_normal_def normal_def max_double_def
      drag_example_roundings)

section \<open>Properties of persistence\<close>

lemmas example_defs =
  example_JSON_def example_parse_def example_stringify_def cards_js_def card_js_def
  position_js_def card_a_def card_a_moved_def string_a_def string_a_moved_def
  cards_infinite_def cards_null_def string_null_def

lemma getPersistedValue_absent_or_invalid:
  "absent_or_invalid JSON storage k \<Longrightarrow> getPersistedValue JSON storage k = Inr JUndefined"
  by (auto simp: absent_or_invalid_def getPersistedValue_def Let_def isl_def
      split: option.splits sum.splits)

lemma getPersistedValue_never_throws: "\<exists>v. getPersistedValue JSON storage k = Inr v"
  by (auto simp: getPersistedValue_def Let_def split: option.splits sum.splits)

lemma getInitialCards_absent_or_invalid:
  "absent_or_invalid JSON storage ''cards'' \<Longrightarrow> getInitialCards JSON storage = Inr (JArr [])"
  by (auto simp: absent_or_invalid_def getInitialCards_def Let_def isl_def
      split: option.splits sum.splits)

lemma persist_effect_calls:
  "stringify JSON v = Inr s \<Longrightarrow>
   setItem_calls (persist_effect JSON opts v b) = setItem_calls b @ [(Session, key opts, s)]"
  by (simp add: persist_effect_def sessionStorage_setItem_def)

lemma persist_effect_localStorage: "localStorage (persist_effect JSON opts v b) = localStorage b"
  by (simp add: persist_effect_def sessionStorage_setItem_def split: sum.splits)

lemma persistent_store_updates_localStorage:
  "localStorage (persistent_store_updates JSON opts stores b) = localStorage b"
  by (induction stores arbitrary: b) (simp_all add: persist_effect_localStorage)

lemma persistent_store_updates_calls:
  "\<forall>v \<in> set stores. \<not> isl (stringify JSON v) \<Longrightarrow>
   setItem_calls (persistent_store_updates JSON opts stores b)
     = setItem_calls b @ map (\<lambda>v. (Session, key opts, projr (stringify JSON v))) stores"
proof (induction stores arbitrary: b)
  case Nil
  then show ?case by simp
next
  case (Cons v stores)
  from Cons.prems obtain s where s: "stringify JSON v = Inr s"
    by (cases "stringify JSON v") auto
  from Cons.prems have rest: "\<forall>v \<in> set stores. \<not> isl (stringify JSON v)" by simp
  show ?case
    using Cons.IH [OF rest, of "persist_effect JSON opts v b"] s
    by (simp add: persist_effect_calls)
qed

lemma App_basic_updates_calls:
  "\<forall>v \<in> set stores. \<not> isl (stringify JSON v) \<Longrightarrow>
   \<exists>b'. App_basic_updates JSON stores b = Inr b' \<and>
     setItem_calls b'
       = setItem_calls b @ map (\<lambda>v. (Session, ''cards'', projr (stringify JSON v))) stores"
proof (induction stores arbitrary: b)
  case Nil
  then show ?case by simp
next
  case (Cons v stores)
  from Cons.prems obtain s where s: "stringify JSON v = Inr s"
    by (cases "stringify JSON v") auto
  from Cons.prems have rest: "\<forall>v \<in> set stores. \<not> isl (stringify JSON v)" by simp
  show ?case
    using Cons.IH [OF rest, of "sessionStorage_setItem ''cards'' s b"] s
    by (auto simp: App_effect_basic_def sessionStorage_setItem_def)
qed

text \<open>
  Claim C1. For every \<^verbatim>\<open>options.type\<close>, \<^verbatim>\<open>createPersistentStore\<close> reads the seed
  from and persists every later state to the same browser storage, the one that
  \<^verbatim>\<open>options.type\<close> selects. The code does not: the effect calls
  \<^verbatim>\<open>sessionStorage.setItem\<close> whatever the type is. With type \<^verbatim>\<open>"local"\<close> and a card
  list stored in \<^verbatim>\<open>localStorage\<close>, the store is seeded from \<^verbatim>\<open>localStorage\<close>, the
  first run of the effect and the run after an update write \<^verbatim>\<open>sessionStorage\<close>,
  \<^verbatim>\<open>localStorage\<close> keeps the old string, and the next load is seeded with the old
  card list.
\<close>

theorem createPersistentStore_local_persists_to_session:
  "createPersistentStore example_JSON (JArr []) \<lparr>key = ''cards'', type = Local, name = None\<rparr>
     (empty_browser\<lparr>localStorage := [''cards'' \<mapsto> string_a]\<rparr>)
   = Inr (cards_js [card_a],
          empty_browser\<lparr>sessionStorage := [''cards'' \<mapsto> string_a],
                         localStorage := [''cards'' \<mapsto> string_a],
                         setItem_calls := [(Session, ''cards'', string_a)]\<rparr>)
   \<and> persistent_store_updates example_JSON \<lparr>key = ''cards'', type = Local, name = None\<rparr>
       [cards_js [card_a_moved]]
       (empty_browser\<lparr>sessionStorage := [''cards'' \<mapsto> string_a],
                      localStorage := [''cards'' \<mapsto> string_a],
                      setItem_calls := [(Session, ''cards'', string_a)]\<rparr>)
     = empty_browser\<lparr>sessionStorage := [''cards'' \<mapsto> string_a_moved],
                     localStorage := [''cards'' \<mapsto> string_a],
                     setItem_calls :=
                       [(Session, ''cards'', string_a), (Session, ''cards'', string_a_moved)]\<rparr>
   \<and> map_sum id fst
       (createPersistentStore example_JSON (JArr []) \<lparr>key = ''cards'', type = Local, name = None\<rparr>
          (empty_browser\<lparr>sessionStorage := [''cards'' \<mapsto> string_a_moved],
                         localStorage := [''cards'' \<mapsto> string_a],
                         setItem_calls :=
                           [(Session, ''cards'', string_a), (Session, ''cards'', string_a_moved)]\<rparr>))
     = Inr (cards_js [card_a])"
  by (simp add: createPersistentStore_def getPersistedValue_def getItem_def persist_effect_def
      sessionStorage_setItem_def empty_browser_def Let_def example_defs)

text \<open>
  Claim C3, as the spec states it: persistence is debounced, a burst of consecutive
  state updates results in a single deferred storage write rather than one write per
  update. The code has no timer and no deferral. A burst of two updates, a card added
  and then dragged by one mousemove, makes two \<^verbatim>\<open>setItem\<close> calls, not one.
\<close>

theorem burst_writes_twice:
  "setItem_calls
     (persistent_store_updates example_JSON \<lparr>key = ''cards'', type = Session, name = None\<rparr>
        [cards_js (addCard_zoom ''a'' []),
         cards_js (snd (handleMouseMove_zoom 0 1 \<lparr>clientX = 3, clientY = -6\<rparr>
                          (Some \<lparr>x = 0, y = 0\<rparr>, addCard_zoom ''a'' [])))]
        empty_browser)
   = [(Session, ''cards'', string_a), (Session, ''cards'', string_a_moved)]
   \<and> length (setItem_calls
       (persistent_store_updates example_JSON \<lparr>key = ''cards'', type = Session, name = None\<rparr>
          [cards_js (addCard_zoom ''a'' []),
           cards_js (snd (handleMouseMove_zoom 0 1 \<lparr>clientX = 3, clientY = -6\<rparr>
                            (Some \<lparr>x = 0, y = 0\<rparr>, addCard_zoom ''a'' [])))]
          empty_browser)) \<noteq> 1"
  by (simp add: persist_effect_def sessionStorage_setItem_def empty_browser_def example_defs
      addCard_zoom_def setCards_at_length_def updateCard_zoom_def setCards_where_def
      assign_patch_def Let_def)

text \<open>
  Claim C3, amended. Persistence is not debounced: the persistence effect runs again
  after every state update, so a burst of n updates makes n storage writes, one per
  update and in their order, each writing the state after that update. This holds for
  the persistent store of the zoomable variant and for the effect of the basic App,
  when \<^verbatim>\<open>JSON.stringify\<close> does not throw on those states.
\<close>

theorem one_write_per_update:
  assumes "\<forall>v \<in> set stores. \<not> isl (stringify JSON v)"
  shows "setItem_calls (persistent_store_updates JSON opts stores b)
           = setItem_calls b @ map (\<lambda>v. (Session, key opts, projr (stringify JSON v))) stores
       \<and> length (setItem_calls (persistent_store_updates JSON opts stores b))
           = length (setItem_calls b) + length stores
       \<and> (\<exists>b'. App_basic_updates JSON stores b = Inr b' \<and>
            setItem_calls b'
              = setItem_calls b @ map (\<lambda>v. (Session, ''cards'', projr (stringify JSON v))) stores \<and>
            length (setItem_calls b') = length (setItem_calls b) + length stores)"
proof -
  obtain b' where "App_basic_updates JSON stores b = Inr b'"
    and "setItem_calls b'
           = setItem_calls b @ map (\<lambda>v. (Session, ''cards'', projr (stringify JSON v))) stores"
    using App_basic_updates_calls [OF assms] by blast
  then show ?thesis
    by (simp add: persistent_store_updates_calls [OF assms])
qed

theorem one_write_per_update_witness:
  "\<not> isl (stringify example_JSON (cards_js [card_a]))
   \<and> \<not> isl (stringify example_JSON (cards_js [card_a_moved]))
   \<and> setItem_calls
       (persistent_store_updates example_JSON \<lparr>key = ''cards'', type = Session, name = None\<rparr>
          [cards_js [card_a], cards_js [card_a_moved]] empty_browser)
     = [(Session, ''cards'', string_a), (Session, ''cards'', string_a_moved)]
   \<and> map_sum id setItem_calls
        (App_basic_updates example_JSON [cards_js [card_a], cards_js [card_a_moved]] empty_browser)
     = Inr [(Session, ''cards'', string_a), (Session, ''cards'', string_a_moved)]"
  using one_write_per_update [of "[cards_js [card_a], cards_js [card_a_moved]]" example_JSON
      "\<lparr>key = ''cards'', type = Session, name = None\<rparr>" empty_browser]
  by (simp add: persist_effect_def App_effect_basic_def sessionStorage_setItem_def
      empty_browser_def example_defs)


lemma is_Card_list_cards_js: "is_Card_list (cards_js cs)"
  by (induction cs)
     (simp_all add: cards_js_def card_js_def position_js_def is_Card_def is_Position_def)




text \<open>
  Claim C5. If the storage key is absent, or the stored string is not valid JSON, the
  load path does not throw and seeds the state with the supplied default: the default
  object in \<^verbatim>\<open>createPersistentStore\<close>, for the storage that \<^verbatim>\<open>options.type\<close>
  selects, and the empty list in \<^verbatim>\<open>getInitialCards\<close>.
\<close>

theorem load_seeds_default:
  "(absent_or_invalid JSON (if type opts = Session then sessionStorage b else localStorage b)
      (key opts)
      \<longrightarrow> getPersistedValue JSON (if type opts = Session then sessionStorage b else localStorage b)
            (key opts) = Inr JUndefined
        \<and> createPersistentStore JSON object opts b = Inr (object, persist_effect JSON opts object b))
   \<and> (absent_or_invalid JSON storage ''cards'' \<longrightarrow> getInitialCards JSON storage = Inr (JArr []))"
  by (simp add: getPersistedValue_absent_or_invalid getInitialCards_absent_or_invalid
      createPersistentStore_def Let_def)

theorem load_seeds_default_witness:
  \<open>absent_or_invalid example_JSON
      (if type \<lparr>key = ''position'', type = Local, name = None\<rparr> = Session
       then sessionStorage (empty_browser\<lparr>sessionStorage := [''position'' \<mapsto> ''[]'']\<rparr>)
       else localStorage (empty_browser\<lparr>sessionStorage := [''position'' \<mapsto> ''[]'']\<rparr>))
      (key \<lparr>key = ''position'', type = Local, name = None\<rparr>)
   \<and> map_sum id fst
       (createPersistentStore example_JSON (JObj [(''x'', JNum 0), (''y'', JNum 0), (''scale'', JNum 1)])
          \<lparr>key = ''position'', type = Local, name = None\<rparr>
          (empty_browser\<lparr>sessionStorage := [''position'' \<mapsto> ''[]'']\<rparr>))
     = Inr (JObj [(''x'', JNum 0), (''y'', JNum 0), (''scale'', JNum 1)])
   \<and> absent_or_invalid example_JSON [''cards'' \<mapsto> ''[{"id":''] ''cards''
   \<and> getInitialCards example_JSON [''cards'' \<mapsto> ''[{"id":''] = Inr (JArr [])\<close>
  using load_seeds_default [of example_JSON "\<lparr>key = ''position'', type = Local, name = None\<rparr>"
      "empty_browser\<lparr>sessionStorage := [''position'' \<mapsto> ''[]'']\<rparr>"
      "JObj [(''x'', JNum 0), (''y'', JNum 0), (''scale'', JNum 1)]"
      \<open>[''cards'' \<mapsto> ''[{"id":'']\<close>]
  by (simp add: absent_or_invalid_def getItem_def empty_browser_def example_defs)

end
